theory Spec2Isabelle
  imports Complex_Main
begin

section \<open>Values shared by the models\<close>

text \<open>
  The repository is a Mongoose/Express backend. Two model files carry logic:
  \<^verbatim>\<open>App/Models/promotion.js\<close> (validity, discount, usage accounting and a pre-save hook)
  and \<^verbatim>\<open>App/Models/order.js\<close> (a pre-save hook that computes the order total).

  JavaScript numbers are modelled as exact reals: the rounding of IEEE doubles, \<open>NaN\<close> and
  the infinities are outside the model. A \<open>Date\<close> is its millisecond time stamp, which is
  what \<open>>=\<close> and \<open><=\<close> compare. An optional schema path is an \<open>option\<close>, \<open>None\<close> being
  JavaScript's \<open>undefined\<close>. A read of the clock (\<open>new Date()\<close>) is a parameter \<open>now\<close>.
  An \<open>ObjectId\<close> is the string it was cast from; the cast itself is outside the model.
\<close>

type_synonym number = real
type_synonym date = int
type_synonym objectId = string

datatype error = ProductNotFound | UsageExceeded | ValidationError | WriteError

section \<open>Promotions: \<^verbatim>\<open>App/Models/promotion.js\<close>\<close>

text \<open>
  The schema paths that the methods and validators read. \<open>type\<close> and \<open>value\<close> carry a
  suffix because Isabelle reserves the words. \<open>description\<close>, \<open>conditions\<close> and the time
  stamps are never read by the code and are left out.
\<close>

record promotion =
  name :: string
  type_p :: string
  value_p :: number
  productId :: objectId
  startDate :: date
  endDate :: date
  active :: bool
  minPurchase :: number
  maxUsage :: "number option"
  currentUsage :: number

text \<open>
  \<^verbatim>\<open>this.maxUsage && this.currentUsage >= this.maxUsage\<close>, the test shared by the pre-save
  hook and by \<open>incrementUsage\<close>. \<open>&&\<close> tests truthiness: \<open>undefined\<close> and \<open>0\<close> are falsy.
\<close>

definition usageReached :: "promotion \<Rightarrow> bool" where
  "usageReached this =
     (case maxUsage this of
        None \<Rightarrow> False
      | Some m \<Rightarrow> m \<noteq> 0 \<and> currentUsage this \<ge> m)"

text \<open>
  \<^verbatim>\<open>!this.maxUsage || this.currentUsage < this.maxUsage\<close>, the last conjunct of \<open>isValid\<close>.
\<close>

definition usageLeft :: "promotion \<Rightarrow> bool" where
  "usageLeft this =
     (case maxUsage this of
        None \<Rightarrow> True
      | Some m \<Rightarrow> m = 0 \<or> currentUsage this < m)"

text \<open>\<^verbatim>\<open>promotionSchema.methods.isValid\<close> (lines 116-124).\<close>

definition isValid :: "promotion \<Rightarrow> date \<Rightarrow> bool" where
  "isValid this now =
     (active this \<and> now \<ge> startDate this \<and> now \<le> endDate this \<and> usageLeft this)"

text \<open>\<^verbatim>\<open>promotionSchema.methods.apply\<close> (lines 131-139); the name is reserved in Isabelle.\<close>

definition apply_p :: "promotion \<Rightarrow> date \<Rightarrow> number \<Rightarrow> number" where
  "apply_p this now price =
     (if \<not> isValid this now then price
      else if type_p this = ''percentage'' then price * (1 - value_p this / 100)
      else max 0 (price - value_p this))"

text \<open>\<^verbatim>\<open>promotionSchema.pre('save')\<close> (lines 105-110).\<close>

definition promotion_pre_save :: "promotion \<Rightarrow> promotion" where
  "promotion_pre_save this =
     (if usageReached this then this\<lparr>active := False\<rparr> else this)"

text \<open>
  The validator of \<open>maxUsage\<close> (lines 78-81): a cap, when there is one, is at least 1.
\<close>

definition maxUsage_min :: "promotion \<Rightarrow> bool" where
  "maxUsage_min this = (case maxUsage this of None \<Rightarrow> True | Some m \<Rightarrow> m \<ge> 1)"

text \<open>
  The validators declared in the schema (lines 9-85): \<open>required\<close> on \<open>name\<close>, which an
  empty string fails, the \<open>enum\<close> of \<open>type\<close>, the two validators of \<open>value\<close>, those of
  \<open>startDate\<close> and \<open>endDate\<close>, and the minima of \<open>minPurchase\<close> and \<open>maxUsage\<close>. On the other
  paths \<open>required\<close> is carried by the types of the record. The validator of \<open>startDate\<close>
  reads the clock.
\<close>

definition promotion_validate :: "promotion \<Rightarrow> date \<Rightarrow> bool" where
  "promotion_validate this now =
     (name this \<noteq> []
      \<and> (type_p this = ''percentage'' \<or> type_p this = ''fixed'')
      \<and> (type_p this \<noteq> ''percentage'' \<or> (value_p this > 0 \<and> value_p this \<le> 100))
      \<and> (type_p this = ''percentage'' \<or> value_p this > 0)
      \<and> startDate this \<ge> now
      \<and> endDate this > startDate this
      \<and> minPurchase this \<ge> 0
      \<and> maxUsage_min this)"

text \<open>
  \<open>this.save()\<close>. Mongoose runs its built-in validation first, on every path of the
  document, then the pre-save hooks of the schema, then writes the document. The outcome
  of the write belongs to the database and is the parameter \<open>written\<close>. The result pairs
  the outcome with the document as it is in memory afterwards.
\<close>

definition promotion_save :: "promotion \<Rightarrow> date \<Rightarrow> bool \<Rightarrow> (error + unit) \<times> promotion" where
  "promotion_save this now written =
     (if \<not> promotion_validate this now then (Inl ValidationError, this)
      else let this' = promotion_pre_save this
           in if written then (Inr (), this') else (Inl WriteError, this'))"

text \<open>\<^verbatim>\<open>promotionSchema.methods.incrementUsage\<close> (lines 146-154).\<close>

definition incrementUsage :: "promotion \<Rightarrow> date \<Rightarrow> bool \<Rightarrow> (error + unit) \<times> promotion" where
  "incrementUsage this now written =
     (if usageReached this then (Inl UsageExceeded, this)
      else promotion_save (this\<lparr>currentUsage := currentUsage this + 1\<rparr>) now written)"

section \<open>Orders: \<^verbatim>\<open>App/Models/order.js\<close>\<close>

text \<open>
  Of the Product schema the hook reads only \<open>price\<close>, a required number.
\<close>

record product_doc =
  product_price :: number

record order_item =
  product :: objectId
  variant :: "objectId option"
  quantity :: number
  price :: "number option"

record order =
  user :: objectId
  items :: "order_item list"
  shippingAddress :: objectId
  paymentMethod :: string
  taxPrice :: number
  shippingPrice :: number
  totalPrice :: number
  isPaid :: bool
  isDelivered :: bool
  status :: string

text \<open>
  The collections the models can query: \<open>findById\<close> on the Product model is a lookup in
  \<open>products\<close>. The promotions are stored beside them.
\<close>

record database =
  products :: "objectId \<rightharpoonup> product_doc"
  promotions :: "promotion list"

text \<open>
  The callback mapped over \<open>this.items\<close> (lines 113-121): the product is fetched for
  every line, a missing product throws, and only then is the price chosen. The thrown
  \<open>Error\<close> carries a message naming the product; the model keeps its kind.
\<close>

definition itemPrice :: "order_item \<Rightarrow> product_doc \<Rightarrow> number" where
  "itemPrice item pdoc = (case price item of Some p \<Rightarrow> p | None \<Rightarrow> product_price pdoc)"

definition item_total :: "database \<Rightarrow> order_item \<Rightarrow> error + number" where
  "item_total db item =
     (case products db (product item) of
        None \<Rightarrow> Inl ProductNotFound
      | Some pdoc \<Rightarrow> Inr (quantity item * itemPrice item pdoc))"

text \<open>
  \<open>Promise.all\<close>: the values in order when every promise is fulfilled, a rejection when
  one is rejected.
\<close>

fun promise_all :: "(error + 'a) list \<Rightarrow> error + 'a list" where
  "promise_all [] = Inr []"
| "promise_all (Inl e # rs) = Inl e"
| "promise_all (Inr x # rs) =
     (case promise_all rs of Inl e \<Rightarrow> Inl e | Inr xs \<Rightarrow> Inr (x # xs))"

text \<open>
  \<^verbatim>\<open>orderSchema.pre('save')\<close> (lines 110-133). \<open>Inl\<close> is \<open>next(error)\<close>, \<open>Inr\<close> the
  document after \<open>next()\<close>.
\<close>

definition order_pre_save :: "database \<Rightarrow> order \<Rightarrow> error + order" where
  "order_pre_save db this =
     (case promise_all (map (item_total db) (items this)) of
        Inl e \<Rightarrow> Inl e
      | Inr itemsPrices \<Rightarrow>
          Inr (this\<lparr>totalPrice :=
                 foldl (\<lambda>acc price. acc + price) 0 itemsPrices
                   + taxPrice this + shippingPrice this\<rparr>))"

text \<open>
  The validators declared in the order schema (lines 26-48 and 90-94): \<open>quantity\<close> has a
  minimum of 1, \<open>price\<close> is required, \<open>paymentMethod\<close> is one of three strings and \<open>status\<close>
  one of five.
\<close>

definition order_validate :: "order \<Rightarrow> bool" where
  "order_validate this =
     (list_all (\<lambda>item. quantity item \<ge> 1 \<and> price item \<noteq> None) (items this)
      \<and> paymentMethod this \<in> set [''card'', ''paypal'', ''bank_transfer'']
      \<and> status this \<in> set [''pending'', ''processing'', ''shipped'', ''delivered'', ''cancelled''])"

text \<open>\<open>save()\<close> of an order: validation, the pre-save hook, the write.\<close>

definition order_save :: "database \<Rightarrow> order \<Rightarrow> bool \<Rightarrow> error + order" where
  "order_save db this written =
     (if \<not> order_validate this then Inl ValidationError
      else case order_pre_save db this of
             Inl e \<Rightarrow> Inl e
           | Inr this' \<Rightarrow> if written then Inr this' else Inl WriteError)"

section \<open>The order controller: \<^verbatim>\<open>App/Controllers/orderController.js\<close>\<close>

text \<open>
  A request body. Each schema key is present or not; \<open>others_b\<close> lists the remaining keys
  of the body in order, with their values. Values of the wrong JSON type are outside the
  model.
\<close>

record order_item_body =
  product_b :: "string option"
  variant_b :: "string option"
  quantity_b :: "number option"
  price_b :: "number option"
  others_ib :: "string list"

record order_body =
  user_b :: "string option"
  items_b :: "order_item_body list option"
  shippingAddress_b :: "string option"
  paymentMethod_b :: "string option"
  others_b :: "(string \<times> number) list"

text \<open>
  A Joi error is the key it is reported at and its code, such as \<open>array.min\<close>; validation
  stops at the first one. The message sent back is the text the schema declares for the
  code, or Joi's own.
\<close>

type_synonym joi_error = "string \<times> string"

fun firstError :: "joi_error option list \<Rightarrow> joi_error option" where
  "firstError [] = None"
| "firstError (None # es) = firstError es"
| "firstError (Some e # es) = Some e"

definition isHex :: "string \<Rightarrow> bool" where
  "isHex s = list_all (\<lambda>c. c \<in> set ''0123456789abcdefABCDEF'') s"

text \<open>\<^verbatim>\<open>Joi.string().hex().length(24)\<close>, required or optional.\<close>

definition joi_hex24 :: "string \<Rightarrow> bool \<Rightarrow> string option \<Rightarrow> joi_error option" where
  "joi_hex24 key required v =
     (case v of
        None \<Rightarrow> if required then Some (key, ''any.required'') else None
      | Some s \<Rightarrow>
          if s = [] then Some (key, ''string.empty'')
          else if \<not> isHex s then Some (key, ''string.hex'')
          else if length s \<noteq> 24 then Some (key, ''string.length'')
          else None)"

definition MAX_SAFE_INTEGER :: number where
  "MAX_SAFE_INTEGER = 9007199254740991"

text \<open>\<^verbatim>\<open>Joi.number()\<close> with \<open>integer()\<close> or not, a minimum, and \<open>required()\<close>.\<close>

definition joi_number :: "string \<Rightarrow> bool \<Rightarrow> number \<Rightarrow> number option \<Rightarrow> joi_error option" where
  "joi_number key integer lo v =
     (case v of
        None \<Rightarrow> Some (key, ''any.required'')
      | Some x \<Rightarrow>
          if x > MAX_SAFE_INTEGER \<or> x < - MAX_SAFE_INTEGER then Some (key, ''number.unsafe'')
          else if integer \<and> of_int \<lfloor>x\<rfloor> \<noteq> x then Some (key, ''number.integer'')
          else if x < lo then Some (key, ''number.min'')
          else None)"

definition joi_unknown :: "string list \<Rightarrow> joi_error option" where
  "joi_unknown keys = (case keys of [] \<Rightarrow> None | k # _ \<Rightarrow> Some (k, ''object.unknown''))"

text \<open>\<open>orderItemSchema\<close> (lines 28-49).\<close>

definition orderItemSchema :: "order_item_body \<Rightarrow> joi_error option" where
  "orderItemSchema item =
     firstError
       [joi_hex24 ''product'' True (product_b item),
        joi_hex24 ''variant'' False (variant_b item),
        joi_number ''quantity'' True 1 (quantity_b item),
        joi_number ''price'' False 0 (price_b item),
        joi_unknown (others_ib item)]"

text \<open>\<^verbatim>\<open>Joi.array().items(this.orderItemSchema).min(1).required()\<close> (line 58).\<close>

definition joi_items :: "order_item_body list option \<Rightarrow> joi_error option" where
  "joi_items v =
     (case v of
        None \<Rightarrow> Some (''items'', ''any.required'')
      | Some xs \<Rightarrow>
          (case firstError (map orderItemSchema xs) of
             Some e \<Rightarrow> Some e
           | None \<Rightarrow> if length xs < 1 then Some (''items'', ''array.min'') else None))"

definition joi_valid :: "string \<Rightarrow> string list \<Rightarrow> string option \<Rightarrow> joi_error option" where
  "joi_valid key allowed v =
     (case v of
        None \<Rightarrow> Some (key, ''any.required'')
      | Some s \<Rightarrow> if s \<in> set allowed then None else Some (key, ''any.only''))"

text \<open>\<open>createSchema\<close> (lines 52-73): the declared keys in order, then the unknown ones.\<close>

definition createSchema :: "order_body \<Rightarrow> joi_error option" where
  "createSchema body =
     firstError
       [joi_hex24 ''user'' True (user_b body),
        joi_items (items_b body),
        joi_hex24 ''shippingAddress'' True (shippingAddress_b body),
        joi_valid ''paymentMethod'' [''card'', ''paypal'', ''bank_transfer''] (paymentMethod_b body),
        joi_unknown (map fst (others_b body))]"

text \<open>
  \<open>this.model.create(request.body)\<close>: the document is built from the body with the
  defaults of the schema (lines 59-94), then saved. A missing required path fails the
  validation.
\<close>

fun new_item :: "order_item_body \<Rightarrow> order_item option" where
  "new_item item =
     (case product_b item of
        None \<Rightarrow> None
      | Some p \<Rightarrow>
          (case quantity_b item of
             None \<Rightarrow> None
           | Some q \<Rightarrow>
               Some \<lparr>product = p, variant = variant_b item, quantity = q,
                     price = price_b item\<rparr>))"

fun new_items :: "order_item_body list \<Rightarrow> order_item list option" where
  "new_items [] = Some []"
| "new_items (x # xs) =
     (case new_item x of
        None \<Rightarrow> None
      | Some i \<Rightarrow> (case new_items xs of None \<Rightarrow> None | Some its \<Rightarrow> Some (i # its)))"

definition field_or :: "number \<Rightarrow> string \<Rightarrow> (string \<times> number) list \<Rightarrow> number" where
  "field_or dflt key kvs = (case map_of kvs key of None \<Rightarrow> dflt | Some v \<Rightarrow> v)"

definition new_order :: "order_body \<Rightarrow> order option" where
  "new_order body =
     (case (user_b body, shippingAddress_b body, paymentMethod_b body) of
        (Some u, Some a, Some m) \<Rightarrow>
          (case new_items (case items_b body of None \<Rightarrow> [] | Some xs \<Rightarrow> xs) of
             None \<Rightarrow> None
           | Some its \<Rightarrow>
               Some \<lparr>user = u, items = its, shippingAddress = a, paymentMethod = m,
                     taxPrice = field_or 0 ''taxPrice'' (others_b body),
                     shippingPrice = field_or 0 ''shippingPrice'' (others_b body),
                     totalPrice = field_or 0 ''totalPrice'' (others_b body),
                     isPaid = False, isDelivered = False, status = ''pending''\<rparr>)
      | _ \<Rightarrow> None)"

definition model_create :: "database \<Rightarrow> order_body \<Rightarrow> bool \<Rightarrow> error + order" where
  "model_create db body written =
     (case new_order body of
        None \<Rightarrow> Inl ValidationError
      | Some doc \<Rightarrow> order_save db doc written)"

text \<open>
  \<^verbatim>\<open>create(request, response, next)\<close> (lines 150-169). \<open>Inl\<close> is the \<open>ErrorResponse\<close> passed
  to \<open>next\<close>, \<open>Inr\<close> the order of the 201 response.
\<close>

datatype message = JoiMessage string string | Literal string

datatype error_response = ErrorResponse message int

definition create :: "database \<Rightarrow> order_body \<Rightarrow> bool \<Rightarrow> error_response + order" where
  "create db body written =
     (case createSchema body of
        Some (key, code) \<Rightarrow> Inl (ErrorResponse (JoiMessage key code) 400)
      | None \<Rightarrow>
          (case model_create db body written of
             Inl e \<Rightarrow> Inl (ErrorResponse (Literal ''Error creating order'') 500)
           | Inr order \<Rightarrow> Inr order))"

section \<open>Concrete documents\<close>

text \<open>
  The documents the scenarios of the specification are run on: a promotion of ten per
  cent on one product, open from time 100 to time 200; order lines on that product; an
  order with given lines, tax and shipping; a catalogue holding the product at a given
  price; request bodies for the controller.
\<close>

definition pid :: objectId where
  "pid = ''5f8d0d55b54764421b7156c1''"

definition percent10 :: promotion where
  "percent10 =
     \<lparr>name = ''ten percent'', type_p = ''percentage'', value_p = 10, productId = pid,
      startDate = 100, endDate = 200, active = True, minPurchase = 0,
      maxUsage = None, currentUsage = 0\<rparr>"

definition line :: "number \<Rightarrow> number option \<Rightarrow> order_item" where
  "line q p = \<lparr>product = pid, variant = None, quantity = q, price = p\<rparr>"

definition order_of :: "order_item list \<Rightarrow> number \<Rightarrow> number \<Rightarrow> order" where
  "order_of its tax shipping =
     \<lparr>user = ''5f8d0d55b54764421b7156a0'', items = its,
      shippingAddress = ''5f8d0d55b54764421b7156b0'', paymentMethod = ''card'',
      taxPrice = tax, shippingPrice = shipping, totalPrice = 0,
      isPaid = False, isDelivered = False, status = ''pending''\<rparr>"

definition catalogue :: "number \<Rightarrow> promotion list \<Rightarrow> database" where
  "catalogue p promos = \<lparr>products = [pid \<mapsto> \<lparr>product_price = p\<rparr>], promotions = promos\<rparr>"

definition no_products :: database where
  "no_products = \<lparr>products = Map.empty, promotions = []\<rparr>"

definition line_b :: "number \<Rightarrow> number \<Rightarrow> order_item_body" where
  "line_b q p =
     \<lparr>product_b = Some pid, variant_b = None, quantity_b = Some q, price_b = Some p,
      others_ib = []\<rparr>"

definition body_of :: "order_item_body list \<Rightarrow> (string \<times> number) list \<Rightarrow> order_body" where
  "body_of its others =
     \<lparr>user_b = Some ''5f8d0d55b54764421b7156a0'', items_b = Some its,
      shippingAddress_b = Some ''5f8d0d55b54764421b7156b0'',
      paymentMethod_b = Some ''card'', others_b = others\<rparr>"

section \<open>Auxiliary facts\<close>

subsection \<open>The usage tests\<close>

lemma usageLeft_iff:
  "usageLeft this \<longleftrightarrow>
     maxUsage this = None \<or> maxUsage this = Some 0
     \<or> (\<exists>m. maxUsage this = Some m \<and> currentUsage this < m)"
  by (auto simp: usageLeft_def split: option.splits)

text \<open>With a cap that satisfies the schema, a truthy cap is a cap that is set.\<close>

lemma usageReached_valid_iff:
  "maxUsage_min this \<Longrightarrow>
     usageReached this \<longleftrightarrow> (\<exists>m. maxUsage this = Some m \<and> currentUsage this \<ge> m)"
  by (auto simp: maxUsage_min_def usageReached_def split: option.splits)

text \<open>On a document that passes the validators a cap is at least 1, hence truthy.\<close>

lemma validated_usageReached:
  "promotion_validate this now \<Longrightarrow>
     usageReached this \<longleftrightarrow> (\<exists>m. maxUsage this = Some m \<and> currentUsage this \<ge> m)"
  by (auto simp: promotion_validate_def maxUsage_min_def usageReached_def split: option.splits)

subsection \<open>The sum of the lines\<close>

lemma foldl_add_sum_list: "foldl (\<lambda>acc p. acc + p) a xs = a + sum_list xs" for a :: real
  by (induction xs arbitrary: a) simp_all

lemma promise_all_resolved:
  "\<forall>item\<in>set xs. products db (product item) = Some (resolve item) \<Longrightarrow>
     promise_all (map (item_total db) xs) =
       Inr (map (\<lambda>item. quantity item * itemPrice item (resolve item)) xs)"
  by (induction xs) (simp_all add: item_total_def)

lemma promise_all_missing:
  "\<exists>item\<in>set xs. products db (product item) = None \<Longrightarrow>
     promise_all (map (item_total db) xs) = Inl ProductNotFound"
proof (induction xs)
  case Nil
  then show ?case by simp
next
  case (Cons x xs)
  show ?case
  proof (cases "products db (product x)")
    case None
    then show ?thesis by (simp add: item_total_def)
  next
    case (Some pdoc)
    with Cons.prems have "\<exists>item\<in>set xs. products db (product item) = None" by auto
    with Cons.IH Some show ?thesis by (simp add: item_total_def)
  qed
qed

lemma order_pre_save_resolved:
  assumes "\<forall>item\<in>set (items this). products db (product item) = Some (resolve item)"
  shows "order_pre_save db this =
           Inr (this\<lparr>totalPrice :=
                  (\<Sum>item\<leftarrow>items this. quantity item * itemPrice item (resolve item))
                    + taxPrice this + shippingPrice this\<rparr>)"
  by (simp add: order_pre_save_def promise_all_resolved [OF assms] foldl_add_sum_list)

lemma item_total_promotions: "item_total (db\<lparr>promotions := ps\<rparr>) = item_total db"
  by (rule ext) (simp add: item_total_def)

subsection \<open>The create schema\<close>

lemma firstError_Some: "Some e \<in> set es \<Longrightarrow> \<exists>e'. firstError es = Some e'"
  by (induction es rule: firstError.induct) auto

lemma joi_items_empty: "joi_items (Some []) = Some (''items'', ''array.min'')"
  by (simp add: joi_items_def)

lemma createSchema_empty_items:
  "items_b body = Some [] \<Longrightarrow> \<exists>e. createSchema body = Some e"
  unfolding createSchema_def
  by (rule firstError_Some [of "(''items'', ''array.min'')"]) (simp add: joi_items_empty)

subsection \<open>The document built from a body\<close>

lemma new_order_fields:
  "new_order body = Some doc \<Longrightarrow>
     taxPrice doc = field_or 0 ''taxPrice'' (others_b body)
     \<and> shippingPrice doc = field_or 0 ''shippingPrice'' (others_b body)"
  by (auto simp: new_order_def split: option.splits)

section \<open>The order total\<close>

text \<open>
  C1, as the code has it. The pre-save hook of the order never reads the promotions:
  whatever promotions are stored, the total is the same, and when the products of all
  lines resolve each line contributes its quantity times its undiscounted unit price.
\<close>

theorem order_pre_save_ignores_promotions:
  "order_pre_save (db\<lparr>promotions := ps\<rparr>) this = order_pre_save db this
   \<and> ((\<forall>item\<in>set (items this). products db (product item) = Some (resolve item)) \<longrightarrow>
       order_pre_save (db\<lparr>promotions := ps\<rparr>) this =
         Inr (this\<lparr>totalPrice :=
                (\<Sum>item\<leftarrow>items this. quantity item * itemPrice item (resolve item))
                  + taxPrice this + shippingPrice this\<rparr>))"
proof -
  have same: "order_pre_save (db\<lparr>promotions := ps\<rparr>) this = order_pre_save db this"
    by (simp add: order_pre_save_def item_total_promotions)
  show ?thesis
    unfolding same using order_pre_save_resolved [of this db resolve] by simp
qed

text \<open>
  Three units at 20 with the ten per cent promotion stored and valid: the total is 60.
\<close>

theorem order_pre_save_ignores_promotions_witness:
  "isValid percent10 150 \<and> productId percent10 = product (line 3 (Some 20))
   \<and> order_pre_save ((catalogue 20 [])\<lparr>promotions := [percent10]\<rparr>)
         (order_of [line 3 (Some 20)] 0 0)
       = Inr ((order_of [line 3 (Some 20)] 0 0)\<lparr>totalPrice := 60\<rparr>)"
proof -
  have r: "\<forall>item\<in>set (items (order_of [line 3 (Some 20)] 0 0)).
             products (catalogue 20 []) (product item) = Some ((\<lambda>_. \<lparr>product_price = 20\<rparr>) item)"
    by (simp add: order_of_def line_def catalogue_def)
  have v: "isValid percent10 150"
    by (simp add: isValid_def usageLeft_def percent10_def)
  have t: "order_pre_save ((catalogue 20 [])\<lparr>promotions := [percent10]\<rparr>)
             (order_of [line 3 (Some 20)] 0 0)
       = Inr ((order_of [line 3 (Some 20)] 0 0)\<lparr>totalPrice :=
                (\<Sum>item\<leftarrow>items (order_of [line 3 (Some 20)] 0 0).
                    quantity item * itemPrice item \<lparr>product_price = 20\<rparr>)
                  + taxPrice (order_of [line 3 (Some 20)] 0 0)
                  + shippingPrice (order_of [line 3 (Some 20)] 0 0)\<rparr>)"
    using r order_pre_save_ignores_promotions
      [where db = "catalogue 20 []" and ps = "[percent10]"
        and this = "order_of [line 3 (Some 20)] 0 0" and resolve = "\<lambda>_. \<lparr>product_price = 20\<rparr>"]
    by blast
  show ?thesis
    using v t by (simp add: order_of_def line_def itemPrice_def percent10_def)
qed

text \<open>
  Scenario B of the specification on the code. The promotion is stored, belongs to the
  product of the line and is valid at time 150; discounting each unit first would give
  \<open>3 * 18 = 54\<close>. The hook returns 60.
\<close>

theorem order_total_promotion_counterexample:
  "percent10 \<in> set (promotions (catalogue 20 [percent10]))
   \<and> productId percent10 = product (line 3 (Some 20))
   \<and> isValid percent10 150
   \<and> 3 * apply_p percent10 150 20 = 54
   \<and> order_pre_save (catalogue 20 [percent10]) (order_of [line 3 (Some 20)] 0 0)
       = Inr ((order_of [line 3 (Some 20)] 0 0)\<lparr>totalPrice := 60\<rparr>)
   \<and> order_pre_save (catalogue 20 [percent10]) (order_of [line 3 (Some 20)] 0 0)
       \<noteq> Inr ((order_of [line 3 (Some 20)] 0 0)\<lparr>totalPrice := 54\<rparr>)"
  by (simp add: catalogue_def line_def order_of_def percent10_def isValid_def usageLeft_def
      apply_p_def order_pre_save_def item_total_def itemPrice_def)

text \<open>
  C2, as the code has it. When the product of every line resolves, the total is the sum
  over the lines of quantity times unit price, plus tax and shipping, the unit price
  being the explicit price of the line when it has one and the price of the product
  otherwise. When the product of some line does not resolve the hook fails with
  \<open>ProductNotFound\<close>, whether or not that line has an explicit price.
\<close>

theorem order_pre_save_total:
  "((\<forall>item\<in>set (items this). products db (product item) = Some (resolve item)) \<longrightarrow>
      order_pre_save db this =
        Inr (this\<lparr>totalPrice :=
               (\<Sum>item\<leftarrow>items this. quantity item * itemPrice item (resolve item))
                 + taxPrice this + shippingPrice this\<rparr>))
   \<and> ((\<exists>item\<in>set (items this). products db (product item) = None) \<longrightarrow>
      order_pre_save db this = Inl ProductNotFound)"
  using order_pre_save_resolved [of this db resolve]
  by (auto simp: order_pre_save_def promise_all_missing)

text \<open>
  Scenario A: two units at an explicit 10, shipping 5, the product in the catalogue at
  99: total 25. A line without a price takes the catalogue's 7: total 19. The same line
  on an empty catalogue fails.
\<close>

theorem order_pre_save_total_witness:
  "order_pre_save (catalogue 99 []) (order_of [line 2 (Some 10)] 0 5)
     = Inr ((order_of [line 2 (Some 10)] 0 5)\<lparr>totalPrice := 25\<rparr>)
   \<and> order_pre_save (catalogue 7 []) (order_of [line 2 None] 0 5)
     = Inr ((order_of [line 2 None] 0 5)\<lparr>totalPrice := 19\<rparr>)
   \<and> order_pre_save no_products (order_of [line 2 None] 0 5) = Inl ProductNotFound"
proof -
  have a: "\<forall>item\<in>set (items (order_of [line 2 (Some 10)] 0 5)).
             products (catalogue 99 []) (product item) = Some ((\<lambda>_. \<lparr>product_price = 99\<rparr>) item)"
    and b: "\<forall>item\<in>set (items (order_of [line 2 None] 0 5)).
             products (catalogue 7 []) (product item) = Some ((\<lambda>_. \<lparr>product_price = 7\<rparr>) item)"
    and c: "\<exists>item\<in>set (items (order_of [line 2 None] 0 5)).
             products no_products (product item) = None"
    by (simp_all add: order_of_def line_def catalogue_def no_products_def)
  show ?thesis
    using a b c
      order_pre_save_total [of "order_of [line 2 (Some 10)] 0 5" "catalogue 99 []"
        "\<lambda>_. \<lparr>product_price = 99\<rparr>"]
      order_pre_save_total [of "order_of [line 2 None] 0 5" "catalogue 7 []"
        "\<lambda>_. \<lparr>product_price = 7\<rparr>"]
      order_pre_save_total [of "order_of [line 2 None] 0 5" no_products
        "\<lambda>_. \<lparr>product_price = 0\<rparr>"]
    by (simp add: order_of_def line_def itemPrice_def)
qed

text \<open>
  Scenario A on a catalogue that does not hold the product. The line carries its own
  price, 10, and no promotion is stored, so nothing has to be resolved to know the unit
  price; the hook looks the product up all the same and fails instead of returning 25.
\<close>

theorem explicit_price_unresolved_counterexample:
  "items (order_of [line 2 (Some 10)] 0 5) \<noteq> []
   \<and> promotions no_products = []
   \<and> price (line 2 (Some 10)) = Some 10
   \<and> order_pre_save no_products (order_of [line 2 (Some 10)] 0 5) = Inl ProductNotFound
   \<and> order_pre_save no_products (order_of [line 2 (Some 10)] 0 5)
       \<noteq> Inr ((order_of [line 2 (Some 10)] 0 5)\<lparr>totalPrice := 25\<rparr>)"
  by (simp add: order_of_def line_def no_products_def order_pre_save_def item_total_def)

text \<open>
  C7, as the code has it. The create schema of the controller turns an empty list of
  lines away: the controller answers with status 400 and no order, and when the \<open>user\<close>
  key is well formed the error is \<open>array.min\<close> at \<open>items\<close>. The pre-save hook itself does
  not test for an empty list: there the total is tax plus shipping.
\<close>

theorem create_rejects_empty_items:
  "(items_b body = Some [] \<longrightarrow>
      (\<exists>key code. create db body written = Inl (ErrorResponse (JoiMessage key code) 400)))
   \<and> (items_b body = Some [] \<and> joi_hex24 ''user'' True (user_b body) = None \<longrightarrow>
      create db body written = Inl (ErrorResponse (JoiMessage ''items'' ''array.min'') 400))
   \<and> (items this = [] \<longrightarrow>
      order_pre_save db this = Inr (this\<lparr>totalPrice := taxPrice this + shippingPrice this\<rparr>))"
proof (intro conjI impI)
  assume "items_b body = Some []"
  then obtain e where "createSchema body = Some e"
    using createSchema_empty_items by blast
  then show "\<exists>key code. create db body written = Inl (ErrorResponse (JoiMessage key code) 400)"
    by (cases e) (simp add: create_def)
next
  assume "items_b body = Some [] \<and> joi_hex24 ''user'' True (user_b body) = None"
  then have "createSchema body = Some (''items'', ''array.min'')"
    by (simp add: createSchema_def joi_items_empty)
  then show "create db body written = Inl (ErrorResponse (JoiMessage ''items'' ''array.min'') 400)"
    by (simp add: create_def)
next
  assume "items this = []"
  then show "order_pre_save db this = Inr (this\<lparr>totalPrice := taxPrice this + shippingPrice this\<rparr>)"
    by (simp add: order_pre_save_def)
qed

text \<open>
  A body with no line is refused; the same body with one line of two units at 10 is
  accepted and saved with total 20; the hook on an order with no line, tax 2 and
  shipping 5 returns 7.
\<close>

theorem create_rejects_empty_items_witness:
  "items_b (body_of [] []) = Some []
   \<and> create (catalogue 20 []) (body_of [] []) True
       = Inl (ErrorResponse (JoiMessage ''items'' ''array.min'') 400)
   \<and> create (catalogue 20 []) (body_of [line_b 2 10] []) True
       = Inr ((order_of [line 2 (Some 10)] 0 0)\<lparr>totalPrice := 20\<rparr>)
   \<and> order_pre_save (catalogue 20 []) (order_of [] 2 5)
       = Inr ((order_of [] 2 5)\<lparr>totalPrice := 7\<rparr>)"
proof -
  have a: "items_b (body_of [] []) = Some []
           \<and> joi_hex24 ''user'' True (user_b (body_of [] [])) = None"
    by (simp add: body_of_def joi_hex24_def isHex_def)
  have b: "items (order_of [] 2 5) = []"
    by (simp add: order_of_def)
  have c: "create (catalogue 20 []) (body_of [line_b 2 10] []) True
       = Inr ((order_of [line 2 (Some 10)] 0 0)\<lparr>totalPrice := 20\<rparr>)"
    by (simp add: create_def createSchema_def body_of_def line_b_def joi_hex24_def isHex_def
        joi_items_def orderItemSchema_def joi_number_def MAX_SAFE_INTEGER_def joi_unknown_def
        joi_valid_def model_create_def new_order_def field_or_def order_save_def
        order_validate_def order_pre_save_def item_total_def itemPrice_def catalogue_def
        order_of_def line_def pid_def)
  show ?thesis
    using a b c
      create_rejects_empty_items [of "body_of [] []" "catalogue 20 []" True "order_of [] 2 5"]
    by (simp add: order_of_def)
qed

text \<open>
  The hook, and the whole \<open>save\<close> with its validators, on an order with no line: no
  failure, and a total of \<open>2 + 5\<close>.
\<close>

theorem order_pre_save_empty_counterexample:
  "items (order_of [] 2 5) = []
   \<and> order_pre_save (catalogue 20 []) (order_of [] 2 5)
       = Inr ((order_of [] 2 5)\<lparr>totalPrice := 7\<rparr>)
   \<and> order_save (catalogue 20 []) (order_of [] 2 5) True
       = Inr ((order_of [] 2 5)\<lparr>totalPrice := 7\<rparr>)"
  by (simp add: order_of_def order_save_def order_validate_def order_pre_save_def)

text \<open>
  C8, as the code has it. Tax and shipping are never tested: whatever their sign they
  are added to the sum of the lines. In a document built from a body, each of the two
  is the value the body gives it, of any sign, and the schema's default, 0, when the
  body does not name it.
\<close>

theorem order_pre_save_adjustments:
  "((\<forall>item\<in>set (items this). products db (product item) = Some (resolve item)) \<longrightarrow>
      order_pre_save db (this\<lparr>taxPrice := tax, shippingPrice := shipping\<rparr>) =
        Inr (this\<lparr>taxPrice := tax, shippingPrice := shipping,
               totalPrice :=
                 (\<Sum>item\<leftarrow>items this. quantity item * itemPrice item (resolve item))
                   + tax + shipping\<rparr>))
   \<and> (new_order body = Some doc \<and> map_of (others_b body) ''taxPrice'' = None \<longrightarrow>
        taxPrice doc = 0)
   \<and> (new_order body = Some doc \<and> map_of (others_b body) ''shippingPrice'' = None \<longrightarrow>
        shippingPrice doc = 0)
   \<and> (new_order body = Some doc \<and> map_of (others_b body) ''taxPrice'' = Some t \<longrightarrow>
        taxPrice doc = t)
   \<and> (new_order body = Some doc \<and> map_of (others_b body) ''shippingPrice'' = Some t \<longrightarrow>
        shippingPrice doc = t)"
proof (intro conjI impI)
  assume "\<forall>item\<in>set (items this). products db (product item) = Some (resolve item)"
  then show "order_pre_save db (this\<lparr>taxPrice := tax, shippingPrice := shipping\<rparr>) =
        Inr (this\<lparr>taxPrice := tax, shippingPrice := shipping,
               totalPrice :=
                 (\<Sum>item\<leftarrow>items this. quantity item * itemPrice item (resolve item))
                   + tax + shipping\<rparr>)"
    using order_pre_save_resolved [of "this\<lparr>taxPrice := tax, shippingPrice := shipping\<rparr>" db resolve]
    by simp
next
  assume "new_order body = Some doc \<and> map_of (others_b body) ''taxPrice'' = None"
  then show "taxPrice doc = 0"
    using new_order_fields [of body doc] by (simp add: field_or_def)
next
  assume "new_order body = Some doc \<and> map_of (others_b body) ''shippingPrice'' = None"
  then show "shippingPrice doc = 0"
    using new_order_fields [of body doc] by (simp add: field_or_def)
next
  assume "new_order body = Some doc \<and> map_of (others_b body) ''taxPrice'' = Some t"
  then show "taxPrice doc = t"
    using new_order_fields [of body doc] by (simp add: field_or_def)
next
  assume "new_order body = Some doc \<and> map_of (others_b body) ''shippingPrice'' = Some t"
  then show "shippingPrice doc = t"
    using new_order_fields [of body doc] by (simp add: field_or_def)
qed

text \<open>
  Two units at 10 with tax \<open>-3\<close> and shipping 4: total 21. A body that names neither
  gives a document with both at 0; a body that names only a shipping of \<open>-4\<close> gives a
  tax of 0 and that shipping.
\<close>

theorem order_pre_save_adjustments_witness:
  "order_pre_save (catalogue 20 [])
       ((order_of [line 2 (Some 10)] 0 0)\<lparr>taxPrice := - 3, shippingPrice := 4\<rparr>)
     = Inr ((order_of [line 2 (Some 10)] 0 0)
              \<lparr>taxPrice := - 3, shippingPrice := 4, totalPrice := 21\<rparr>)
   \<and> new_order (body_of [line_b 2 10] []) = Some (order_of [line 2 (Some 10)] 0 0)
   \<and> new_order (body_of [line_b 2 10] [(''shippingPrice'', - 4)])
       = Some (order_of [line 2 (Some 10)] 0 (- 4))
   \<and> taxPrice (order_of [line 2 (Some 10)] 0 (- 4)) = 0
   \<and> shippingPrice (order_of [line 2 (Some 10)] 0 (- 4)) = - 4"
proof -
  have r: "\<forall>item\<in>set (items (order_of [line 2 (Some 10)] 0 0)).
             products (catalogue 20 []) (product item) = Some ((\<lambda>_. \<lparr>product_price = 20\<rparr>) item)"
    by (simp add: order_of_def line_def catalogue_def)
  have n: "new_order (body_of [line_b 2 10] []) = Some (order_of [line 2 (Some 10)] 0 0)"
    and n': "new_order (body_of [line_b 2 10] [(''shippingPrice'', - 4)])
       = Some (order_of [line 2 (Some 10)] 0 (- 4))"
    by (simp_all add: new_order_def body_of_def line_b_def field_or_def order_of_def line_def)
  have k: "map_of (others_b (body_of [line_b 2 10] [(''shippingPrice'', - 4)])) ''taxPrice'' = None"
    and k': "map_of (others_b (body_of [line_b 2 10] [(''shippingPrice'', - 4)])) ''shippingPrice''
              = Some (- 4)"
    by (simp_all add: body_of_def)
  have t: "order_pre_save (catalogue 20 [])
             ((order_of [line 2 (Some 10)] 0 0)\<lparr>taxPrice := - 3, shippingPrice := 4\<rparr>)
     = Inr ((order_of [line 2 (Some 10)] 0 0)\<lparr>taxPrice := - 3, shippingPrice := 4,
              totalPrice :=
                 (\<Sum>item\<leftarrow>items (order_of [line 2 (Some 10)] 0 0).
                     quantity item * itemPrice item \<lparr>product_price = 20\<rparr>) + - 3 + 4\<rparr>)"
    using r order_pre_save_adjustments
      [where db = "catalogue 20 []" and this = "order_of [line 2 (Some 10)] 0 0"
        and resolve = "\<lambda>_. \<lparr>product_price = 20\<rparr>" and tax = "- 3" and shipping = 4]
    by blast
  have d: "taxPrice (order_of [line 2 (Some 10)] 0 (- 4)) = 0
           \<and> shippingPrice (order_of [line 2 (Some 10)] 0 (- 4)) = - 4"
    using n' k k' order_pre_save_adjustments
      [where body = "body_of [line_b 2 10] [(''shippingPrice'', - 4)]"
        and doc = "order_of [line 2 (Some 10)] 0 (- 4)" and t = "- 4"]
    by blast
  show ?thesis
    using n n' t d by (simp add: order_of_def line_def itemPrice_def)
qed

text \<open>
  An order with a negative tax, through the hook and through the whole \<open>save\<close>: no
  failure, and a total of \<open>2 * 10 - 3\<close>.
\<close>

theorem negative_tax_counterexample:
  "taxPrice (order_of [line 2 (Some 10)] (- 3) 0) < 0
   \<and> order_pre_save (catalogue 20 []) (order_of [line 2 (Some 10)] (- 3) 0)
       = Inr ((order_of [line 2 (Some 10)] (- 3) 0)\<lparr>totalPrice := 17\<rparr>)
   \<and> order_save (catalogue 20 []) (order_of [line 2 (Some 10)] (- 3) 0) True
       = Inr ((order_of [line 2 (Some 10)] (- 3) 0)\<lparr>totalPrice := 17\<rparr>)"
  by (simp add: order_of_def line_def catalogue_def order_save_def order_validate_def
      order_pre_save_def item_total_def itemPrice_def)

text \<open>
  C10. In an order whose products all resolve, a line with a defined price \<open>p\<close> adds
  its quantity times \<open>p\<close> to the total, whatever the price of its product: the test is
  against \<open>undefined\<close>, so a price of 0 counts, and such a line adds nothing.
\<close>

theorem explicit_price_precedence:
  assumes "items this = front @ item # rest"
    and "\<forall>i\<in>set (items this). products db (product i) = Some (resolve i)"
    and "price item = Some p"
  shows "order_pre_save db this =
           Inr (this\<lparr>totalPrice :=
                  (\<Sum>i\<leftarrow>front. quantity i * itemPrice i (resolve i))
                    + quantity item * p
                    + (\<Sum>i\<leftarrow>rest. quantity i * itemPrice i (resolve i))
                    + taxPrice this + shippingPrice this\<rparr>)
         \<and> (p = 0 \<longrightarrow>
            order_pre_save db this =
              Inr (this\<lparr>totalPrice :=
                     (\<Sum>i\<leftarrow>front. quantity i * itemPrice i (resolve i))
                       + (\<Sum>i\<leftarrow>rest. quantity i * itemPrice i (resolve i))
                       + taxPrice this + shippingPrice this\<rparr>))"
proof -
  have unit: "itemPrice item (resolve item) = p"
    using assms(3) by (simp add: itemPrice_def)
  have "order_pre_save db this =
           Inr (this\<lparr>totalPrice :=
                  (\<Sum>i\<leftarrow>front @ item # rest. quantity i * itemPrice i (resolve i))
                    + taxPrice this + shippingPrice this\<rparr>)"
    using order_pre_save_resolved [OF assms(2)] assms(1) by simp
  then show ?thesis
    by (simp add: unit)
qed

text \<open>
  Three units at an explicit 0 of a product that costs 99, then two units at 5, tax 1
  and shipping 2: the hook replaces the total of 0 the order started with by
  \<open>0 + 10 + 1 + 2 = 13\<close>.
\<close>

theorem explicit_price_precedence_witness:
  "items (order_of [line 3 (Some 0), line 2 (Some 5)] 1 2) = [] @ line 3 (Some 0) # [line 2 (Some 5)]
   \<and> products (catalogue 99 []) (product (line 3 (Some 0))) = Some \<lparr>product_price = 99\<rparr>
   \<and> price (line 3 (Some 0)) = Some 0
   \<and> totalPrice (order_of [line 3 (Some 0), line 2 (Some 5)] 1 2) = 0
   \<and> order_pre_save (catalogue 99 []) (order_of [line 3 (Some 0), line 2 (Some 5)] 1 2)
       = Inr ((order_of [line 3 (Some 0), line 2 (Some 5)] 1 2)\<lparr>totalPrice := 13\<rparr>)"
proof -
  have a: "items (order_of [line 3 (Some 0), line 2 (Some 5)] 1 2)
             = [] @ line 3 (Some 0) # [line 2 (Some 5)]"
    by (simp add: order_of_def)
  have b: "\<forall>i\<in>set (items (order_of [line 3 (Some 0), line 2 (Some 5)] 1 2)).
             products (catalogue 99 []) (product i) = Some ((\<lambda>_. \<lparr>product_price = 99\<rparr>) i)"
    by (simp add: order_of_def line_def catalogue_def)
  have c: "price (line 3 (Some 0)) = Some 0"
    by (simp add: line_def)
  have d: "products (catalogue 99 []) (product (line 3 (Some 0))) = Some \<lparr>product_price = 99\<rparr>"
    by (simp add: line_def catalogue_def)
  show ?thesis
    using a c d explicit_price_precedence [OF a b c]
    by (simp add: order_of_def line_def itemPrice_def)
qed

section \<open>Promotions\<close>

text \<open>
  C4. On a promotion whose cap satisfies the schema, \<open>isValid\<close> holds exactly when the
  promotion is active, the time lies between the two dates, both included, and the cap
  is unset or not yet reached.
\<close>

theorem isValid_iff:
  assumes "maxUsage_min this"
  shows "isValid this T \<longleftrightarrow>
     active this \<and> startDate this \<le> T \<and> T \<le> endDate this
     \<and> (maxUsage this = None \<or> (\<exists>m. maxUsage this = Some m \<and> currentUsage this < m))"
proof -
  have "maxUsage this \<noteq> Some 0"
    using assms by (auto simp: maxUsage_min_def)
  then show ?thesis
    unfolding isValid_def usageLeft_iff by auto
qed

text \<open>
  The promotion open from 100 to 200 is valid at 100 and at 200, not at 99 or 201; with
  a cap of 3 it is valid after two uses and not after three.
\<close>

theorem isValid_iff_witness:
  "maxUsage_min percent10
   \<and> isValid percent10 100 \<and> isValid percent10 200
   \<and> \<not> isValid percent10 99 \<and> \<not> isValid percent10 201
   \<and> maxUsage_min (percent10\<lparr>maxUsage := Some 3, currentUsage := 2\<rparr>)
   \<and> isValid (percent10\<lparr>maxUsage := Some 3, currentUsage := 2\<rparr>) 100
   \<and> maxUsage_min (percent10\<lparr>maxUsage := Some 3, currentUsage := 3\<rparr>)
   \<and> \<not> isValid (percent10\<lparr>maxUsage := Some 3, currentUsage := 3\<rparr>) 100"
proof -
  have a: "maxUsage_min percent10"
    and b: "maxUsage_min (percent10\<lparr>maxUsage := Some 3, currentUsage := 2\<rparr>)"
    and c: "maxUsage_min (percent10\<lparr>maxUsage := Some 3, currentUsage := 3\<rparr>)"
    by (simp_all add: maxUsage_min_def percent10_def)
  show ?thesis
    using a b c
      isValid_iff [OF a, of 100] isValid_iff [OF a, of 200]
      isValid_iff [OF a, of 99] isValid_iff [OF a, of 201]
      isValid_iff [OF b, of 100] isValid_iff [OF c, of 100]
    by (simp add: percent10_def)
qed

text \<open>
  C5. On a promotion that is valid when applied and a price that is not negative: a
  percentage with a value in \<open>(0, 100]\<close> gives \<open>price * (1 - value / 100)\<close>, which is at
  most the price and not negative; a fixed amount gives \<open>max 0 (price - value)\<close>, which is
  not negative.
\<close>

theorem apply_p_valid:
  assumes "isValid this now" and "0 \<le> amount"
  shows "(type_p this = ''percentage'' \<and> 0 < value_p this \<and> value_p this \<le> 100 \<longrightarrow>
            apply_p this now amount = amount * (1 - value_p this / 100)
            \<and> apply_p this now amount \<le> amount \<and> 0 \<le> apply_p this now amount)
         \<and> (type_p this = ''fixed'' \<longrightarrow>
            apply_p this now amount = max 0 (amount - value_p this)
            \<and> 0 \<le> apply_p this now amount)"
proof (intro conjI impI)
  assume pc: "type_p this = ''percentage'' \<and> 0 < value_p this \<and> value_p this \<le> 100"
  then show eq: "apply_p this now amount = amount * (1 - value_p this / 100)"
    using assms by (simp add: apply_p_def)
  have "0 \<le> 1 - value_p this / 100" "1 - value_p this / 100 \<le> 1"
    using pc by simp_all
  then show "apply_p this now amount \<le> amount" "0 \<le> apply_p this now amount"
    using assms(2) eq by (simp_all add: mult_left_le)
next
  assume "type_p this = ''fixed''"
  then show "apply_p this now amount = max 0 (amount - value_p this)"
    using assms by (simp add: apply_p_def)
  then show "0 \<le> apply_p this now amount" by simp
qed

text \<open>
  Scenario C, a fixed 10 off a price of 5, gives 0; ten per cent off 20 gives 18.
\<close>

theorem apply_p_valid_witness:
  "isValid (percent10\<lparr>type_p := ''fixed''\<rparr>) 150 \<and> (0::real) \<le> 5
   \<and> apply_p (percent10\<lparr>type_p := ''fixed''\<rparr>) 150 5 = 0
   \<and> isValid percent10 150 \<and> (0::real) \<le> 20
   \<and> apply_p percent10 150 20 = 18"
proof -
  have v1: "isValid (percent10\<lparr>type_p := ''fixed''\<rparr>) 150"
    and v2: "isValid percent10 150"
    by (simp_all add: isValid_def usageLeft_def percent10_def)
  have p1: "(0::real) \<le> 5" and p2: "(0::real) \<le> 20" by simp_all
  show ?thesis
    using v1 v2 apply_p_valid [OF v1 p1] apply_p_valid [OF v2 p2]
    by (simp add: percent10_def)
qed

text \<open>
  C6. On a promotion that is not valid when applied, \<open>apply\<close> returns the price it was
  given; nothing is thrown.
\<close>

theorem apply_p_not_valid:
  "\<not> isValid this now \<Longrightarrow> apply_p this now amount = amount"
  by (simp add: apply_p_def)

text \<open>
  Scenario D, a cap of 1 already used once; an inactive promotion; a promotion past its
  end date: each leaves a price of 20 as it is.
\<close>

theorem apply_p_not_valid_witness:
  "\<not> isValid (percent10\<lparr>maxUsage := Some 1, currentUsage := 1\<rparr>) 150
   \<and> apply_p (percent10\<lparr>maxUsage := Some 1, currentUsage := 1\<rparr>) 150 20 = 20
   \<and> \<not> isValid (percent10\<lparr>active := False\<rparr>) 150
   \<and> apply_p (percent10\<lparr>active := False\<rparr>) 150 20 = 20
   \<and> \<not> isValid percent10 201
   \<and> apply_p percent10 201 20 = 20"
proof -
  have a: "\<not> isValid (percent10\<lparr>maxUsage := Some 1, currentUsage := 1\<rparr>) 150"
    and b: "\<not> isValid (percent10\<lparr>active := False\<rparr>) 150"
    and c: "\<not> isValid percent10 201"
    by (simp_all add: isValid_def usageLeft_def percent10_def)
  show ?thesis
    using a b c apply_p_not_valid [OF a, of 20] apply_p_not_valid [OF b, of 20]
      apply_p_not_valid [OF c, of 20]
    by simp
qed

text \<open>
  C3, and where the code leaves it. On a promotion whose cap satisfies the schema,
  \<open>incrementUsage\<close> fails with \<open>UsageExceeded\<close> exactly when the cap is set and reached by
  the count at the call, and the document is then as it was. When it succeeds the count
  has grown by 1, and \<open>active\<close> is false if the new count reaches the cap and unchanged
  otherwise. But \<open>save\<close> runs the validators again, the one of \<open>startDate\<close> among them: on
  a promotion that has started and whose cap is not reached the call fails with a
  validation error, and the count has already grown in memory.
\<close>

theorem incrementUsage_result:
  assumes "maxUsage_min this"
  shows "(fst (incrementUsage this now written) = Inl UsageExceeded \<longleftrightarrow>
      (\<exists>m. maxUsage this = Some m \<and> currentUsage this \<ge> m))
   \<and> (fst (incrementUsage this now written) = Inl UsageExceeded \<longrightarrow>
      snd (incrementUsage this now written) = this)
   \<and> (fst (incrementUsage this now written) = Inr () \<longrightarrow>
      snd (incrementUsage this now written) =
        this\<lparr>currentUsage := currentUsage this + 1,
             active := active this
               \<and> \<not> (\<exists>m. maxUsage this = Some m \<and> currentUsage this + 1 \<ge> m)\<rparr>)
   \<and> (fst (incrementUsage this now written) \<noteq> Inl UsageExceeded \<and> startDate this < now \<longrightarrow>
      incrementUsage this now written =
        (Inl ValidationError, this\<lparr>currentUsage := currentUsage this + 1\<rparr>))"
proof (cases "usageReached this")
  case True
  then show ?thesis
    using usageReached_valid_iff [OF assms] by (simp add: incrementUsage_def)
next
  case False
  let ?next = "this\<lparr>currentUsage := currentUsage this + 1\<rparr>"
  have run: "incrementUsage this now written = promotion_save ?next now written"
    using False by (simp add: incrementUsage_def)
  have no: "fst (promotion_save ?next now written) \<noteq> Inl UsageExceeded"
    by (simp add: promotion_save_def Let_def)
  have ok: "snd (promotion_save ?next now written) =
              this\<lparr>currentUsage := currentUsage this + 1,
                   active := active this
                     \<and> \<not> (\<exists>m. maxUsage this = Some m \<and> currentUsage this + 1 \<ge> m)\<rparr>"
    if "fst (promotion_save ?next now written) = Inr ()"
  proof -
    from that have v: "promotion_validate ?next now" and w: written
      by (auto simp: promotion_save_def Let_def split: if_splits)
    show ?thesis
      using v w validated_usageReached [OF v]
      by (cases "usageReached ?next") (simp_all add: promotion_save_def promotion_pre_save_def)
  qed
  have started: "promotion_save ?next now written = (Inl ValidationError, ?next)"
    if "startDate this < now"
    using that by (simp add: promotion_save_def promotion_validate_def)
  show ?thesis
    using False no ok started usageReached_valid_iff [OF assms] unfolding run by simp
qed

text \<open>
  A promotion that was valid for the schema at time 100, with a cap of 3 and one use, is
  valid for \<open>isValid\<close> at time 150; \<open>incrementUsage\<close> at 150 fails with a validation error
  and leaves a count of 2. The same call at time 100 succeeds. With a cap of 2 it
  succeeds and switches the promotion off. Scenario D, a cap of 1 used once, is
  \<open>UsageExceeded\<close> with nothing changed.
\<close>

theorem incrementUsage_result_witness:
  "maxUsage_min (percent10\<lparr>maxUsage := Some 3, currentUsage := 1\<rparr>)
   \<and> promotion_validate (percent10\<lparr>maxUsage := Some 3, currentUsage := 1\<rparr>) 100
   \<and> isValid (percent10\<lparr>maxUsage := Some 3, currentUsage := 1\<rparr>) 150
   \<and> incrementUsage (percent10\<lparr>maxUsage := Some 3, currentUsage := 1\<rparr>) 150 True =
     (Inl ValidationError, percent10\<lparr>maxUsage := Some 3, currentUsage := 2\<rparr>)
   \<and> incrementUsage (percent10\<lparr>maxUsage := Some 3, currentUsage := 1\<rparr>) 100 True =
     (Inr (), percent10\<lparr>maxUsage := Some 3, currentUsage := 2\<rparr>)
   \<and> incrementUsage (percent10\<lparr>maxUsage := Some 2, currentUsage := 1\<rparr>) 100 True =
     (Inr (), percent10\<lparr>maxUsage := Some 2, currentUsage := 2, active := False\<rparr>)
   \<and> incrementUsage (percent10\<lparr>maxUsage := Some 1, currentUsage := 1\<rparr>) 150 True =
     (Inl UsageExceeded, percent10\<lparr>maxUsage := Some 1, currentUsage := 1\<rparr>)"
proof -
  have m3: "maxUsage_min (percent10\<lparr>maxUsage := Some 3, currentUsage := 1\<rparr>)"
    and m2: "maxUsage_min (percent10\<lparr>maxUsage := Some 2, currentUsage := 1\<rparr>)"
    and m1: "maxUsage_min (percent10\<lparr>maxUsage := Some 1, currentUsage := 1\<rparr>)"
    by (simp_all add: maxUsage_min_def percent10_def)
  have v: "promotion_validate (percent10\<lparr>maxUsage := Some 3, currentUsage := 1\<rparr>) 100"
    by (simp add: promotion_validate_def maxUsage_min_def percent10_def)
  have i: "isValid (percent10\<lparr>maxUsage := Some 3, currentUsage := 1\<rparr>) 150"
    by (simp add: isValid_def usageLeft_def percent10_def)
  have a: "fst (incrementUsage (percent10\<lparr>maxUsage := Some 3, currentUsage := 1\<rparr>) 150 True)
             \<noteq> Inl UsageExceeded
           \<and> startDate (percent10\<lparr>maxUsage := Some 3, currentUsage := 1\<rparr>) < 150"
    and b: "fst (incrementUsage (percent10\<lparr>maxUsage := Some 3, currentUsage := 1\<rparr>) 100 True)
             = Inr ()"
    and c: "fst (incrementUsage (percent10\<lparr>maxUsage := Some 2, currentUsage := 1\<rparr>) 100 True)
             = Inr ()"
    and d: "fst (incrementUsage (percent10\<lparr>maxUsage := Some 1, currentUsage := 1\<rparr>) 150 True)
             = Inl UsageExceeded"
    by (simp_all add: incrementUsage_def usageReached_def promotion_save_def
        promotion_validate_def maxUsage_min_def percent10_def)
  have s: "incrementUsage (percent10\<lparr>maxUsage := Some 3, currentUsage := 1\<rparr>) 150 True =
     (Inl ValidationError,
      (percent10\<lparr>maxUsage := Some 3, currentUsage := 1\<rparr>)
        \<lparr>currentUsage := currentUsage (percent10\<lparr>maxUsage := Some 3, currentUsage := 1\<rparr>) + 1\<rparr>)"
    using a incrementUsage_result [OF m3, of 150 True] by blast
  show ?thesis
    using m3 v i s b c d
      incrementUsage_result [OF m3, of 100 True]
      incrementUsage_result [OF m2, of 100 True]
      incrementUsage_result [OF m1, of 150 True]
    by (simp add: prod_eq_iff percent10_def)
qed

text \<open>
  C9. After a \<open>save\<close> that succeeds, whoever called it, a promotion whose cap is set and
  reached is inactive; the hook changes neither the cap nor the count.
\<close>

theorem promotion_save_invariant:
  assumes "promotion_save this now written = (Inr (), this')"
  shows "(\<forall>m. maxUsage this' = Some m \<and> currentUsage this' \<ge> m \<longrightarrow> \<not> active this')
         \<and> maxUsage this' = maxUsage this \<and> currentUsage this' = currentUsage this"
proof -
  from assms have v: "promotion_validate this now" and eq: "this' = promotion_pre_save this"
    by (auto simp: promotion_save_def Let_def split: if_splits)
  show ?thesis
    using validated_usageReached [OF v] unfolding eq promotion_pre_save_def by auto
qed

text \<open>
  A promotion first saved with a cap of 1 and a count already at 5 is stored inactive.
\<close>

theorem promotion_save_invariant_witness:
  "promotion_save (percent10\<lparr>maxUsage := Some 1, currentUsage := 5\<rparr>) 100 True =
     (Inr (), percent10\<lparr>maxUsage := Some 1, currentUsage := 5, active := False\<rparr>)
   \<and> \<not> active (percent10\<lparr>maxUsage := Some 1, currentUsage := 5, active := False\<rparr>)"
proof -
  have s: "promotion_save (percent10\<lparr>maxUsage := Some 1, currentUsage := 5\<rparr>) 100 True =
     (Inr (), percent10\<lparr>maxUsage := Some 1, currentUsage := 5, active := False\<rparr>)"
    by (simp add: promotion_save_def promotion_validate_def maxUsage_min_def
        promotion_pre_save_def usageReached_def percent10_def)
  show ?thesis
    using s promotion_save_invariant [OF s] by simp
qed

end
